theory Spec2Isabelle
  imports Main "HOL-Library.AList"
begin

section \<open>The manager of mark2: events, effects and state\<close>

text \<open>
  The module \<^verbatim>\<open>mk2/manager.py\<close> holds the class \<^verbatim>\<open>Manager\<close>: the handlers it
  registers with the event dispatcher and a few helpers. Everything a handler does is a
  call of a collaborator (\<^verbatim>\<open>self.events.dispatch\<close>, \<^verbatim>\<open>log.msg\<close>,
  \<^verbatim>\<open>properties.load\<close>, \<^verbatim>\<open>reactor.callInThread\<close>) or an update of the manager's
  own attributes. A handler is therefore a function from the manager's state and the
  event to the new state and the list of collaborator calls it makes, in program order.
\<close>

subsection \<open>Events\<close>

text \<open>
  Modelled from the spec: the event classes of the module \<^verbatim>\<open>events\<close>, which is not
  among the sources. Each kind the manager builds or receives is a constructor whose
  arguments are the keyword arguments the manager passes or the attributes it reads.
  A keyword argument that a call site may leave out is an \<open>option\<close>. Text is a
  \<open>string\<close>; the attributes \<^verbatim>\<open>time\<close>, \<^verbatim>\<open>level\<close> and \<^verbatim>\<open>user\<close> are only copied or
  formatted by the manager and are text here as well. The model has one type of text,
  on which the conversions \<^verbatim>\<open>unicode(...)\<close> and \<^verbatim>\<open>str(...)\<close> of Python 2 change
  nothing, as they do on text in ASCII; which of Python's two string types a value has
  at run time, and so what the conversions do outside ASCII, is not represented.
\<close>

record server_output =
  so_line :: string
  so_time :: string
  so_level :: string
  so_data :: string

text \<open>The keyword arguments of \<^verbatim>\<open>events.Console\<close> other than \<^verbatim>\<open>line\<close>.\<close>

record console_kwargs =
  c_source :: "string option"
  c_kind :: "string option"
  c_user :: "string option"
  c_time :: "string option"
  c_level :: "string option"
  c_data :: "string option"

record user_input =
  ui_line :: string
  ui_user :: string

datatype event =
    ServerOutput server_output
  | Console string console_kwargs
  | ServerInput string bool
  | FatalError "string option"
  | ServerStart
  | ServerStarted
  | ServerStopped
  | UserAttach string
  | UserDetach string
  | UserInput user_input
  | PlayerJoin string
  | PlayerQuit string
  | PlayerChat string string
  | PlayerDeath "string option" string "(string \<times> string option) list"
  | StatPlayers "string set"
  | Hook string

text \<open>
  \<open>Console line k\<close> is \<^verbatim>\<open>events.Console(line=line, **k)\<close>,
  \<open>ServerInput line parse_colors\<close>, \<open>FatalError reason\<close> (the reason may be
  \<^verbatim>\<open>None\<close>), \<open>PlayerDeath cause format groups\<close> with the remaining keyword arguments
  as a list of name and value, and \<open>StatPlayers players\<close>. The manager passes
  \<^verbatim>\<open>list(self.players)\<close>, a list of the set in no particular order, so the payload is
  the set.
\<close>

subsection \<open>Effects\<close>

datatype signal = SIGINT

text \<open>
  The log file object that \<^verbatim>\<open>start_logging\<close> builds: \<^verbatim>\<open>logfile.DailyLogFile(name,
  directory)\<close> or \<^verbatim>\<open>logfile.LogFile(name, directory, rotateLength, maxRotatedFiles)\<close>.
\<close>

datatype log_obj =
    DailyLogFile string string
  | LogFile string string "string option" "string option"

datatype action =
    Dispatch event
  | LogMsg string
  | PropertiesLoad
  | CallInThread_kill signal
  | AddSystemEventTrigger
  | EventDispatcher
  | Register string string string "string option"
  | Chdir string
  | ConfigLoad
  | StartLogging log_obj

text \<open>
  \<open>Dispatch e\<close> is a call \<^verbatim>\<open>self.events.dispatch(e)\<close>; \<open>LogMsg l\<close> is
  \<^verbatim>\<open>log.msg(l, system="mark2")\<close>; \<open>PropertiesLoad\<close> is the call of
  \<^verbatim>\<open>properties.load\<close> for \<^verbatim>\<open>server.properties\<close>; \<open>CallInThread_kill SIGINT\<close> is
  \<^verbatim>\<open>reactor.callInThread(lambda: os.kill(os.getpid(), signal.SIGINT))\<close>.
  The calls of the start: \<open>AddSystemEventTrigger\<close> is
  \<^verbatim>\<open>reactor.addSystemEventTrigger('before', 'shutdown', self.before_reactor_stop)\<close>;
  \<open>EventDispatcher\<close> is \<^verbatim>\<open>events.EventDispatcher(self.handle_dispatch_error)\<close>;
  \<open>Register callback kind priority pattern\<close> is a call of
  \<^verbatim>\<open>self.events.register\<close>; \<open>Chdir path\<close> is \<^verbatim>\<open>os.chdir(path)\<close>;
  \<open>ConfigLoad\<close> is the call of \<^verbatim>\<open>properties.load\<close> for
  \<^verbatim>\<open>mark2.properties\<close>; \<open>StartLogging log_obj\<close> is
  \<^verbatim>\<open>log.startLogging(log_obj)\<close>.
\<close>

datatype error = TypeError | ValueError | KeyError | OSError

subsection \<open>The manager's attributes\<close>

record 'p manager =
  players :: "string set"
  started :: bool
  properties :: "'p option"

text \<open>
  \<open>'p\<close> is the type of a loaded properties object (the module \<^verbatim>\<open>properties\<close> is
  not among the sources); \<open>None\<close> is \<^verbatim>\<open>None\<close> or an attribute not yet set.
\<close>

subsection \<open>Python's string operations\<close>

text \<open>\<^verbatim>\<open>s.split("\n")\<close>: the pieces between the newlines, at least one piece.\<close>

primrec split_newline :: "string \<Rightarrow> string list" where
  "split_newline [] = [[]]"
| "split_newline (c # cs) =
     (if c = CHR 0x0A then [] # split_newline cs
      else (case split_newline cs of
              [] \<Rightarrow> [[c]]
            | p # ps \<Rightarrow> (c # p) # ps))"

text \<open>\<^verbatim>\<open>s.startswith(p)\<close>.\<close>

definition startswith :: "string \<Rightarrow> string \<Rightarrow> bool" where
  "startswith s p = (take (length p) s = p)"

text \<open>\<^verbatim>\<open>"%s" % v\<close> for a value that is text or \<^verbatim>\<open>None\<close>.\<close>

fun str :: "string option \<Rightarrow> string" where
  "str None = ''None''"
| "str (Some s) = s"

section \<open>Helpers of the manager\<close>

text \<open>
  \<^verbatim>\<open>
  def console(self, line, **k):
      for l in unicode(line).split(u"\n"):
          k['line'] = l
          self.events.dispatch(events.Console(**k))
  \<close>
  The line is text, so \<^verbatim>\<open>unicode(line)\<close> is the line itself.
\<close>

definition no_kwargs :: console_kwargs where
  "no_kwargs = \<lparr>c_source = None, c_kind = None, c_user = None,
                 c_time = None, c_level = None, c_data = None\<rparr>"

definition console :: "string \<Rightarrow> console_kwargs \<Rightarrow> action list" where
  "console line k = map (\<lambda>l. Dispatch (Console l k)) (split_newline line)"

text \<open>
  \<^verbatim>\<open>
  def shutdown(self):
      reactor.callInThread(lambda: os.kill(os.getpid(), signal.SIGINT))
  \<close>
\<close>

definition shutdown :: "action list" where
  "shutdown = [CallInThread_kill SIGINT]"

section \<open>The handlers\<close>

definition handle_server_output :: "server_output \<Rightarrow> action list" where
  "handle_server_output event =
     [Dispatch (Console (so_line event)
        \<lparr>c_source = Some ''server'', c_kind = None, c_user = None,
         c_time = Some (so_time event), c_level = Some (so_level event),
         c_data = Some (so_data event)\<rparr>)]"

text \<open>
  \<^verbatim>\<open>
  def handle_console(self, event):
      for line in event.value().encode('utf8').split("\n"):
          log.msg(line, system="mark2")
  \<close>
  \<^verbatim>\<open>event.value()\<close> belongs to the event class; it is the parameter \<open>val\<close>.
\<close>

definition handle_console ::
  "(string \<Rightarrow> console_kwargs \<Rightarrow> string) \<Rightarrow> string \<Rightarrow> console_kwargs \<Rightarrow> action list" where
  "handle_console val line k = map LogMsg (split_newline (val line k))"

text \<open>
  \<^verbatim>\<open>
  def handle_fatal(self, event):
      s = "fatal error: %s" % event.reason
      self.console(s, kind="error")
      self.shutdown()
  \<close>
\<close>

definition handle_fatal :: "string option \<Rightarrow> action list" where
  "handle_fatal reason =
     (let s = ''fatal error: '' @ str reason
      in console s (no_kwargs\<lparr>c_kind := Some ''error''\<rparr>) @ shutdown)"

text \<open>
  \<^verbatim>\<open>
  def handle_server_started(self, event):
      properties_ = properties.load(properties.Mark2Properties, ..., 'server.properties')
      if properties_:
          self.properties = properties_
      if not self.started:
          self.console("mark2 started.")
          self.started = True
  \<close>
  What \<^verbatim>\<open>properties.load\<close> returns (\<^verbatim>\<open>properties_\<close>) is the argument \<open>properties'\<close>: \<open>Some p\<close> for an
  object \<open>p\<close> that counts as true, \<open>None\<close> for \<^verbatim>\<open>None\<close> and for any other result
  that counts as false (which the handler drops without looking at it).
\<close>

definition handle_server_started ::
  "'p option \<Rightarrow> 'p manager \<Rightarrow> 'p manager \<times> action list" where
  "handle_server_started properties' self =
     (let self1 = (case properties' of
                     Some p \<Rightarrow> self\<lparr>properties := Some p\<rparr>
                   | None \<Rightarrow> self)
      in if \<not> started self1
         then (self1\<lparr>started := True\<rparr>, PropertiesLoad # console ''mark2 started.'' no_kwargs)
         else (self1, [PropertiesLoad]))"

definition handle_user_attach :: "string \<Rightarrow> action list" where
  "handle_user_attach u = console (u @ '' attached'') (no_kwargs\<lparr>c_kind := Some ''joinpart''\<rparr>)"

definition handle_user_detach :: "string \<Rightarrow> action list" where
  "handle_user_detach u = console (u @ '' detached'') (no_kwargs\<lparr>c_kind := Some ''joinpart''\<rparr>)"

text \<open>
  \<^verbatim>\<open>
  @inlineCallbacks
  def handle_user_input(self, event):
      self.console(event.line, user=event.user, source="user")
      if event.line.startswith("~"):
          handled = yield self.events.dispatch(events.Hook(line=event.line))
          if not handled:
              self.console("unknown command.")
      elif event.line.startswith('#'):
          pass
      else:
          self.events.dispatch(events.ServerInput(line=event.line, parse_colors=True))
  \<close>
  The result of the \<^verbatim>\<open>Hook\<close> dispatch comes from the dispatcher and the plugins'
  handlers: it is the argument \<open>handled\<close>. \<open>Some b\<close> is a result whose truth value is
  \<open>b\<close>; \<open>None\<close> is a deferred result that fails or never arrives, after which the
  generator is not resumed.
\<close>

definition handle_user_input :: "bool option \<Rightarrow> user_input \<Rightarrow> action list" where
  "handle_user_input handled event =
     console (ui_line event) (no_kwargs\<lparr>c_user := Some (ui_user event), c_source := Some ''user''\<rparr>) @
     (if startswith (ui_line event) ''~'' then
        Dispatch (Hook (ui_line event)) #
        (case handled of
           None \<Rightarrow> []
         | Some h \<Rightarrow> if \<not> h then console ''unknown command.'' no_kwargs else [])
      else if startswith (ui_line event) ''#'' then []
      else [Dispatch (ServerInput (ui_line event) True)])"

text \<open>
  \<^verbatim>\<open>
  def handle_player_join(self, event):
      self.players.add(str(event.username))
      self.events.dispatch(events.StatPlayers(players=list(self.players)))

  def handle_player_quit(self, event):
      self.players.discard(str(event.username))
      self.events.dispatch(events.StatPlayers(players=list(self.players)))

  def handle_server_stopped(self, event):
      self.players.clear()
      self.events.dispatch(events.StatPlayers(players=[]))
  \<close>
  A user name is text, so \<^verbatim>\<open>str(event.username)\<close> is the name itself.
\<close>

definition handle_player_join :: "string \<Rightarrow> 'p manager \<Rightarrow> 'p manager \<times> action list" where
  "handle_player_join username self =
     (let self1 = self\<lparr>players := insert username (players self)\<rparr>
      in (self1, [Dispatch (StatPlayers (players self1))]))"

definition handle_player_quit :: "string \<Rightarrow> 'p manager \<Rightarrow> 'p manager \<times> action list" where
  "handle_player_quit username self =
     (let self1 = self\<lparr>players := players self - {username}\<rparr>
      in (self1, [Dispatch (StatPlayers (players self1))]))"

definition handle_server_stopped :: "'p manager \<Rightarrow> 'p manager \<times> action list" where
  "handle_server_stopped self =
     (let self1 = self\<lparr>players := {}\<rparr>
      in (self1, [Dispatch (StatPlayers {})]))"

section \<open>The handlers registered in \<^verbatim>\<open>really_start\<close>\<close>

text \<open>
  \<^verbatim>\<open>
  self.events.register(self.handle_server_output, events.ServerOutput,  priority=EventPriority.MONITOR, pattern="")
  self.events.register(self.handle_console,       events.Console,       priority=EventPriority.MONITOR)
  self.events.register(self.handle_fatal,         events.FatalError,    priority=EventPriority._HIGH)
  self.events.register(self.handle_server_started,events.ServerStarted, priority=EventPriority.MONITOR)
  self.events.register(self.handle_user_attach,   events.UserAttach,    priority=EventPriority.MONITOR)
  self.events.register(self.handle_user_detach,   events.UserDetach,    priority=EventPriority.MONITOR)
  self.events.register(self.handle_user_input,    events.UserInput,     priority=EventPriority.MONITOR)
  self.events.register(self.handle_player_join,   events.PlayerJoin,    priority=EventPriority.MONITOR)
  self.events.register(self.handle_player_quit,   events.PlayerQuit,    priority=EventPriority.MONITOR)
  self.events.register(self.handle_server_stopped,events.ServerStopped, priority=EventPriority.MONITOR)
  \<close>
  The dispatcher is not among the sources. \<open>registered_handlers\<close> is what the
  handlers of this table do when an event is dispatched: the table has one handler for
  each of its kinds, so no order among them is involved, and none for the other kinds.
  The answers of the collaborators that a handler waits for while it runs are given
  with the event. The classifiers that \<^verbatim>\<open>really_start\<close> registers for
  \<^verbatim>\<open>ServerOutput\<close> further down are not part of it: the death classifier is the
  function \<open>handler\<close> below, and the three for join, quit and chat read the match that
  the dispatcher attaches to the event.
\<close>

record 'p answers =
  properties_load :: "'p option"
  hook_handled :: "bool option"
  console_value :: "string \<Rightarrow> console_kwargs \<Rightarrow> string"

fun registered_handlers :: "'p answers \<Rightarrow> 'p manager \<Rightarrow> event \<Rightarrow> 'p manager \<times> action list" where
  "registered_handlers env self (ServerOutput e) = (self, handle_server_output e)"
| "registered_handlers env self (Console line k) = (self, handle_console (console_value env) line k)"
| "registered_handlers env self (FatalError reason) = (self, handle_fatal reason)"
| "registered_handlers env self ServerStarted = handle_server_started (properties_load env) self"
| "registered_handlers env self (UserAttach u) = (self, handle_user_attach u)"
| "registered_handlers env self (UserDetach u) = (self, handle_user_detach u)"
| "registered_handlers env self (UserInput e) = (self, handle_user_input (hook_handled env) e)"
| "registered_handlers env self (PlayerJoin username) = handle_player_join username self"
| "registered_handlers env self (PlayerQuit username) = handle_player_quit username self"
| "registered_handlers env self ServerStopped = handle_server_stopped self"
| "registered_handlers env self _ = (self, [])"

text \<open>A sequence of dispatches, one after the other, with the calls they make in order.\<close>

fun run :: "'p manager \<Rightarrow> ('p answers \<times> event) list \<Rightarrow> 'p manager \<times> action list" where
  "run self [] = (self, [])"
| "run self ((env, e) # es) =
     (let (self1, t1) = registered_handlers env self e;
          (self2, t2) = run self1 es
      in (self2, t1 @ t2))"

section \<open>The death classifier\<close>

text \<open>
  \<^verbatim>\<open>
  deaths = list(self.lang.get_deaths())
  def handler(e, cause=None):
      for name, (pattern, format) in deaths:
          m = re.match(pattern, e.data)
          if m:
              self.events.dispatch(events.PlayerDeath(cause=cause,
                                                      format=format,
                                                      **m.groupdict()))
              break
  self.events.register(handler, events.ServerOutput, pattern=".*")
  \<close>
  \<^verbatim>\<open>re.match\<close> is the parameter \<open>re_match\<close>: \<open>None\<close> when the pattern does not match
  at the start of the text, otherwise \<open>Some\<close> of the match's \<^verbatim>\<open>groupdict()\<close> (a match
  object always counts as true). A group that took no part in the match has the value
  \<^verbatim>\<open>None\<close>. The call of \<^verbatim>\<open>events.PlayerDeath\<close> passes \<^verbatim>\<open>cause\<close> and \<^verbatim>\<open>format\<close> by
  keyword next to the keywords of the dictionary: Python raises \<^verbatim>\<open>TypeError\<close>
  (multiple values for a keyword argument) when the dictionary has one of these two
  keys, before anything is built or dispatched.
\<close>

fun handler ::
  "('r \<Rightarrow> string \<Rightarrow> (string \<times> string option) list option) \<Rightarrow>
   (string \<times> 'r \<times> string) list \<Rightarrow> server_output \<Rightarrow> string option \<Rightarrow> error + action list" where
  "handler re_match [] e cause = Inr []"
| "handler re_match ((name, (pattern, format)) # deaths) e cause =
     (case re_match pattern (so_data e) of
        None \<Rightarrow> handler re_match deaths e cause
      | Some groupdict \<Rightarrow>
          if ''cause'' \<in> set (map fst groupdict) \<or> ''format'' \<in> set (map fst groupdict)
          then Inl TypeError
          else Inr [Dispatch (PlayerDeath cause format groupdict)])"

subsection \<open>Python's \<^verbatim>\<open>re.match\<close> on a fragment of the pattern language\<close>

text \<open>
  To run the classifier on a concrete table, the compiled patterns of a fragment of
  Python's pattern language: a literal character, \<^verbatim>\<open>\w\<close>, \<^verbatim>\<open>^\<close>, \<^verbatim>\<open>$\<close>,
  concatenation, \<^verbatim>\<open>r+\<close> and the named group \<^verbatim>\<open>(?P<name>r)\<close>.
\<close>

datatype regex =
    Lit char
  | Word
  | Bol
  | Eol
  | Cat regex regex
  | Plus regex
  | Named string regex

text \<open>\<^verbatim>\<open>\w\<close> without the flags \<^verbatim>\<open>LOCALE\<close> and \<^verbatim>\<open>UNICODE\<close>.\<close>

definition is_word :: "char \<Rightarrow> bool" where
  "is_word c = (c \<in> set ''abcdefghijklmnopqrstuvwxyzABCDEFGHIJKLMNOPQRSTUVWXYZ0123456789_'')"

text \<open>
  A position of the matcher: the number of characters consumed, the rest of the text and
  the groups captured so far. \<open>matches r st\<close> lists the positions after a match of
  \<open>r\<close> that starts at \<open>st\<close>, in the order a backtracking matcher tries them: \<^verbatim>\<open>+\<close> is
  greedy. Without \<^verbatim>\<open>MULTILINE\<close>, \<^verbatim>\<open>^\<close> matches at the start of the text only and
  \<^verbatim>\<open>$\<close> at its end or before a newline that ends it.
\<close>

type_synonym position = "nat \<times> string \<times> (string \<times> string) list"

fun matches :: "regex \<Rightarrow> position \<Rightarrow> position list" where
  "matches (Lit c) (i, s, g) =
     (case s of [] \<Rightarrow> [] | x # xs \<Rightarrow> if x = c then [(Suc i, xs, g)] else [])"
| "matches Word (i, s, g) =
     (case s of [] \<Rightarrow> [] | x # xs \<Rightarrow> if is_word x then [(Suc i, xs, g)] else [])"
| "matches Bol (i, s, g) = (if i = 0 then [(i, s, g)] else [])"
| "matches Eol (i, s, g) = (if s = [] \<or> s = [CHR 0x0A] then [(i, s, g)] else [])"
| "matches (Cat a b) st = concat (map (matches b) (matches a st))"
| "matches (Named n r) (i, s, g) =
     map (\<lambda>(j, t, h). (j, t, AList.update n (take (j - i) s) h)) (matches r (i, s, g))"
| "matches (Plus r) (i, s, g) =
     concat (map (\<lambda>(j, t, h).
        (if length t < length s then matches (Plus r) (j, t, h) else []) @ [(j, t, h)])
        (matches r (i, s, g)))"

text \<open>
  \<^verbatim>\<open>re.match(pattern, s)\<close> followed by \<^verbatim>\<open>groupdict()\<close>: the first position found,
  wherever in the text it ends. In this fragment every group of the pattern takes part
  in a match.
\<close>

definition re_match_fragment :: "regex \<Rightarrow> string \<Rightarrow> (string \<times> string option) list option" where
  "re_match_fragment pattern s =
     (case matches pattern (0, s, []) of
        [] \<Rightarrow> None
      | (j, t, g) # _ \<Rightarrow> Some (map (\<lambda>(n, v). (n, Some v)) g))"

text \<open>
  The pattern matches the whole text: some match that starts at the start of the text
  ends at its end.
\<close>

definition re_fullmatch_fragment :: "regex \<Rightarrow> string \<Rightarrow> bool" where
  "re_fullmatch_fragment pattern s =
     list_ex (\<lambda>(j, t, g). t = []) (matches pattern (0, s, []))"

text \<open>A literal text in front of a pattern.\<close>

fun lit :: "string \<Rightarrow> regex \<Rightarrow> regex" where
  "lit [] r = r"
| "lit (c # cs) r = Cat (Lit c) (lit cs r)"

text \<open>The pattern \<^verbatim>\<open>^(?P<victim>\w+) fell from a high place$\<close>.\<close>

definition fall_pattern :: regex where
  "fall_pattern =
     Cat Bol (Cat (Named ''victim'' (Plus Word)) (lit '' fell from a high place'' Eol))"

text \<open>The pattern \<^verbatim>\<open>^(?P<victim>\w+) was slain by (?P<cause>\w+)$\<close>.\<close>

definition slain_pattern :: regex where
  "slain_pattern =
     Cat Bol (Cat (Named ''victim'' (Plus Word))
       (lit '' was slain by '' (Cat (Named ''cause'' (Plus Word)) Eol)))"

section \<open>Starting up\<close>

text \<open>
  The attributes that \<^verbatim>\<open>__init__\<close> sets next to \<^verbatim>\<open>players\<close>, and \<^verbatim>\<open>config\<close>, which
  \<^verbatim>\<open>load_config\<close> sets (\<open>None\<close> is \<^verbatim>\<open>None\<close>).
\<close>

record 'p starting_manager = "'p manager" +
  shared_path :: string
  server_name :: string
  server_path :: string
  jar_file :: "string option"
  config :: "'p option"

text \<open>
  What the collaborators answer during the start: whether \<^verbatim>\<open>os.chdir\<close> raises, what
  \<^verbatim>\<open>properties.load\<close> returns for \<^verbatim>\<open>mark2.properties\<close> (\<open>None\<close> is \<^verbatim>\<open>None\<close>), what
  \<^verbatim>\<open>self.config[key]\<close> gives on a loaded object, and the text of
  \<^verbatim>\<open>traceback.format_exc()\<close> for an exception.
\<close>

record 'p start_answers =
  chdir :: "error option"
  config_load :: "'p option"
  getitem :: "'p \<Rightarrow> string \<Rightarrow> error + string"
  format_exc :: "error \<Rightarrow> string"

text \<open>
  \<^verbatim>\<open>
  def fatal_error(self, *a, **k):
      k['reason'] = a[0] if a else None
      self.events.dispatch(events.FatalError(**k))
  \<close>
  \<open>a\<close> are the positional arguments and \<open>reason\<close> is the keyword \<^verbatim>\<open>reason\<close> of the
  caller, if it gives one; the assignment replaces it.
\<close>

definition fatal_error :: "string list \<Rightarrow> string option \<Rightarrow> action list" where
  "fatal_error a reason =
     [Dispatch (FatalError (case a of [] \<Rightarrow> None | r # _ \<Rightarrow> Some r))]"

text \<open>
  \<^verbatim>\<open>
  def load_config(self):
      self.config = properties.load(properties.Mark2Properties, ..., 'mark2.properties')
      if self.config is None:
          return self.fatal_error(reason="couldn't find mark2.properties")
  \<close>
\<close>

definition load_config ::
  "'p option \<Rightarrow> 'p starting_manager \<Rightarrow> 'p starting_manager \<times> action list" where
  "load_config loaded self =
     (let self1 = self\<lparr>config := loaded\<rparr>
      in if config self1 = None
         then (self1, ConfigLoad #
                 fatal_error [] (Some (''couldn'' @ CHR 0x27 # ''t find mark2.properties'')))
         else (self1, [ConfigLoad]))"

text \<open>
  \<^verbatim>\<open>
  def start_logging(self):
      log_rotate = self.config['mark2.log.rotate_mode']
      log_size   = self.config['mark2.log.rotate_size']
      log_limit  = self.config['mark2.log.rotate_limit']
      if log_rotate == 'daily':
          log_obj = logfile.DailyLogFile("%s.log" % self.server_name, self.shared_path)
      elif log_rotate in ('off', 'size'):
          log_obj = logfile.LogFile("%s.log" % self.server_name, self.shared_path,
                                    rotateLength=log_size if log_rotate == 'size' else None,
                                    maxRotatedFiles=log_limit if log_limit != "" else None)
      else:
          raise ValueError("mark2.log.rotate-mode is invalid.")

      log.startLogging(log_obj)
  \<close>
  The result is the calls made and the exception raised, if any. Subscripting
  \<^verbatim>\<open>None\<close> raises \<^verbatim>\<open>TypeError\<close>.
\<close>

definition start_logging ::
  "('p \<Rightarrow> string \<Rightarrow> error + string) \<Rightarrow> 'p starting_manager \<Rightarrow> action list \<times> error option" where
  "start_logging getitem' self =
     (case config self of
        None \<Rightarrow> ([], Some TypeError)
      | Some c \<Rightarrow>
          (case getitem' c ''mark2.log.rotate_mode'' of
             Inl e \<Rightarrow> ([], Some e)
           | Inr log_rotate \<Rightarrow>
          (case getitem' c ''mark2.log.rotate_size'' of
             Inl e \<Rightarrow> ([], Some e)
           | Inr log_size \<Rightarrow>
          (case getitem' c ''mark2.log.rotate_limit'' of
             Inl e \<Rightarrow> ([], Some e)
           | Inr log_limit \<Rightarrow>
               if log_rotate = ''daily'' then
                 ([StartLogging (DailyLogFile (server_name self @ ''.log'') (shared_path self))],
                  None)
               else if log_rotate = ''off'' \<or> log_rotate = ''size'' then
                 ([StartLogging (LogFile (server_name self @ ''.log'') (shared_path self)
                     (if log_rotate = ''size'' then Some log_size else None)
                     (if log_limit = [] then None else Some log_limit))],
                  None)
               else ([], Some ValueError)))))"

text \<open>
  The registrations of \<^verbatim>\<open>really_start\<close> shown above: callback, kind of event, priority
  and pattern.
\<close>

definition registrations :: "(string \<times> string \<times> string \<times> string option) list" where
  "registrations =
     [(''handle_server_output'', ''ServerOutput'', ''MONITOR'', Some []),
      (''handle_console'', ''Console'', ''MONITOR'', None),
      (''handle_fatal'', ''FatalError'', ''_HIGH'', None),
      (''handle_server_started'', ''ServerStarted'', ''MONITOR'', None),
      (''handle_user_attach'', ''UserAttach'', ''MONITOR'', None),
      (''handle_user_detach'', ''UserDetach'', ''MONITOR'', None),
      (''handle_user_input'', ''UserInput'', ''MONITOR'', None),
      (''handle_player_join'', ''PlayerJoin'', ''MONITOR'', None),
      (''handle_player_quit'', ''PlayerQuit'', ''MONITOR'', None),
      (''handle_server_stopped'', ''ServerStopped'', ''MONITOR'', None)]"

text \<open>
  \<^verbatim>\<open>
  def really_start(self):
      self.events = events.EventDispatcher(self.handle_dispatch_error)
      self.events.register(...)            # the ten registrations
      os.chdir(self.server_path)
      self.load_config()
      self.start_logging()
      ...                                  # from "chmod log and pid" to the end
  \<close>
  The result is the manager, the calls made and the exception that ends the function,
  if any. The statements after \<^verbatim>\<open>self.start_logging()\<close> are the parameter \<open>rest\<close>:
  any function of the manager with a result of this form. The result of
  \<^verbatim>\<open>load_config\<close> is dropped, as in the source, and the next statement runs.
\<close>

definition really_start ::
  "'p start_answers \<Rightarrow>
   ('p starting_manager \<Rightarrow> 'p starting_manager \<times> action list \<times> error option) \<Rightarrow>
   'p starting_manager \<Rightarrow> 'p starting_manager \<times> action list \<times> error option" where
  "really_start env rest self =
     (let cs0 = EventDispatcher #
                map (\<lambda>(callback, kind, priority, pattern). Register callback kind priority pattern)
                    registrations @
                [Chdir (server_path self)]
      in case chdir env of
           Some e \<Rightarrow> (self, cs0, Some e)
         | None \<Rightarrow>
             (let (self1, cs1) = load_config (config_load env) self
              in case start_logging (getitem env) self1 of
                   (cs2, Some e) \<Rightarrow> (self1, cs0 @ cs1 @ cs2, Some e)
                 | (cs2, None) \<Rightarrow>
                     (let (self2, cs3, r) = rest self1
                      in (self2, cs0 @ cs1 @ cs2 @ cs3, r))))"

text \<open>
  \<^verbatim>\<open>
  def startup(self):
      reactor.addSystemEventTrigger('before', 'shutdown', self.before_reactor_stop)

      try:
          self.really_start()
      except Exception:
          for l in traceback.format_exc().split("\n"):
              self.console(l, kind='error')
          self.shutdown()
  \<close>
\<close>

definition startup ::
  "'p start_answers \<Rightarrow>
   ('p starting_manager \<Rightarrow> 'p starting_manager \<times> action list \<times> error option) \<Rightarrow>
   'p starting_manager \<Rightarrow> 'p starting_manager \<times> action list" where
  "startup env rest self =
     (case really_start env rest self of
        (self1, cs, None) \<Rightarrow> (self1, AddSystemEventTrigger # cs)
      | (self1, cs, Some e) \<Rightarrow>
          (self1, AddSystemEventTrigger # cs @
             concat (map (\<lambda>l. console l (no_kwargs\<lparr>c_kind := Some ''error''\<rparr>))
                         (split_newline (format_exc env e))) @
             shutdown))"

text \<open>
  A start at which \<^verbatim>\<open>mark2.properties\<close> is not found: a manager as \<^verbatim>\<open>__init__\<close>
  leaves it, the answers of the collaborators, and for the statements after
  \<^verbatim>\<open>self.start_logging()\<close> a function that does nothing.
\<close>

definition new_manager :: "unit starting_manager" where
  "new_manager =
     \<lparr>players = {}, started = False, properties = None,
      shared_path = ''/tmp/mark2'', server_name = ''survival'',
      server_path = ''/srv/survival'', jar_file = None, config = None\<rparr>"

definition no_config_answers :: "unit start_answers" where
  "no_config_answers =
     \<lparr>chdir = None, config_load = None, getitem = (\<lambda>c key. Inl KeyError),
      format_exc = (\<lambda>e. ''Traceback (most recent call last):'' @ CHR 0x0A # ''TypeError'')\<rparr>"

definition nothing_more ::
  "unit starting_manager \<Rightarrow> unit starting_manager \<times> action list \<times> error option" where
  "nothing_more self = (self, [], None)"

section \<open>Reading a list of calls\<close>

text \<open>The lines of the \<^verbatim>\<open>Console\<close> events dispatched, and \<^verbatim>\<open>"\n".join\<close>.\<close>

fun console_lines :: "action list \<Rightarrow> string list" where
  "console_lines [] = []"
| "console_lines (Dispatch (Console l k) # as) = l # console_lines as"
| "console_lines (a # as) = console_lines as"

fun join_newline :: "string list \<Rightarrow> string" where
  "join_newline [] = []"
| "join_newline [l] = l"
| "join_newline (l # ls) = l @ CHR 0x0A # join_newline ls"

text \<open>The players of the last \<^verbatim>\<open>StatPlayers\<close> event dispatched, if there is one.\<close>

fun last_stat_players :: "action list \<Rightarrow> string set option" where
  "last_stat_players [] = None"
| "last_stat_players (Dispatch (StatPlayers ps) # as) =
     (case last_stat_players as of None \<Rightarrow> Some ps | Some qs \<Rightarrow> Some qs)"
| "last_stat_players (a # as) = last_stat_players as"

text \<open>The calls made after the first call \<open>a\<close>.\<close>

definition calls_after :: "action \<Rightarrow> action list \<Rightarrow> action list" where
  "calls_after a cs = drop 1 (dropWhile (\<lambda>c. c \<noteq> a) cs)"

section \<open>Facts about the helpers\<close>

lemma split_newline_not_Nil: "split_newline s \<noteq> []"
  by (induction s) (auto split: list.splits)

lemma join_split_newline: "join_newline (split_newline s) = s"
proof (induction s)
  case Nil
  show ?case by simp
next
  case (Cons c cs)
  show ?case
  proof (cases "split_newline cs")
    case Nil
    with split_newline_not_Nil show ?thesis by blast
  next
    case (Cons p ps)
    with Cons.IH show ?thesis
      by (cases ps) auto
  qed
qed

lemma split_newline_no_newline: "CHR 0x0A \<notin> set s \<Longrightarrow> split_newline s = [s]"
  by (induction s) auto

lemma console_lines_map: "console_lines (map (\<lambda>l. Dispatch (Console l k)) ls) = ls"
  by (induction ls) auto

lemma console_lines_console: "console_lines (console line k) = split_newline line"
  by (simp add: console_def console_lines_map)

lemma last_stat_players_append:
  "last_stat_players (t1 @ t2) =
     (case last_stat_players t2 of None \<Rightarrow> last_stat_players t1 | Some ps \<Rightarrow> Some ps)"
  by (induction t1 rule: last_stat_players.induct) (auto split: option.splits)

lemma last_stat_players_console: "last_stat_players (console l k) = None"
proof -
  have "last_stat_players (map (\<lambda>l. Dispatch (Console l k)) ls) = None" for ls
    by (induction ls) auto
  then show ?thesis by (simp add: console_def)
qed

lemma last_stat_players_log: "last_stat_players (map LogMsg ls) = None"
  by (induction ls) auto

lemma last_stat_players_user_input: "last_stat_players (handle_user_input h ev) = None"
  by (simp add: handle_user_input_def last_stat_players_append last_stat_players_console
           split: option.splits)

lemma last_stat_players_fatal: "last_stat_players (handle_fatal r) = None"
  by (simp add: handle_fatal_def shutdown_def last_stat_players_append last_stat_players_console)

lemma last_stat_players_started:
  "last_stat_players (snd (handle_server_started l self)) = None
   \<and> players (fst (handle_server_started l self)) = players self"
  by (simp add: handle_server_started_def Let_def last_stat_players_console split: option.splits)


lemma registered_handlers_mirror:
  "(last_stat_players (snd (registered_handlers env self e)) = None
      \<and> players (fst (registered_handlers env self e)) = players self)
   \<or> last_stat_players (snd (registered_handlers env self e)) =
       Some (players (fst (registered_handlers env self e)))"
proof (cases e)
  case ServerStarted
  then show ?thesis by (simp add: last_stat_players_started)
next
  case (Console l k)
  then show ?thesis by (simp add: handle_console_def last_stat_players_log)
next
  case (UserInput ev)
  then show ?thesis by (simp add: last_stat_players_user_input)
next
  case (FatalError r)
  then show ?thesis by (simp add: last_stat_players_fatal)
next
  case (UserAttach u)
  then show ?thesis by (simp add: handle_user_attach_def last_stat_players_console)
next
  case (UserDetach u)
  then show ?thesis by (simp add: handle_user_detach_def last_stat_players_console)
next
  case (ServerOutput ev)
  then show ?thesis by (simp add: handle_server_output_def)
next
  case (PlayerJoin u)
  then show ?thesis by (simp add: handle_player_join_def)
next
  case (PlayerQuit u)
  then show ?thesis by (simp add: handle_player_quit_def)
next
  case ServerStopped
  then show ?thesis by (simp add: handle_server_stopped_def)
qed simp_all

lemma run_mirror:
  "(last_stat_players (snd (run self es)) = None \<and> players (fst (run self es)) = players self)
   \<or> last_stat_players (snd (run self es)) = Some (players (fst (run self es)))"
proof (induction es arbitrary: self)
  case Nil
  show ?case by simp
next
  case (Cons p es)
  obtain env e where p: "p = (env, e)" by (cases p)
  obtain s1 t1 where h: "registered_handlers env self e = (s1, t1)" by (rule prod.exhaust)
  obtain s2 t2 where r: "run s1 es = (s2, t2)" by (rule prod.exhaust)
  have eq: "run self (p # es) = (s2, t1 @ t2)"
    by (simp add: p h r)
  from registered_handlers_mirror[of env self e] h
  have 1: "(last_stat_players t1 = None \<and> players s1 = players self)
           \<or> last_stat_players t1 = Some (players s1)"
    by simp
  from Cons.IH[of s1] r
  have 2: "(last_stat_players t2 = None \<and> players s2 = players s1)
           \<or> last_stat_players t2 = Some (players s2)"
    by simp
  have app: "last_stat_players (t1 @ t2) =
      (case last_stat_players t2 of None \<Rightarrow> last_stat_players t1 | Some ps \<Rightarrow> Some ps)"
    by (rule last_stat_players_append)
  from 2 show ?case
  proof
    assume a: "last_stat_players t2 = None \<and> players s2 = players s1"
    with app have "last_stat_players (t1 @ t2) = last_stat_players t1" by simp
    with 1 a show ?thesis unfolding eq by simp
  next
    assume "last_stat_players t2 = Some (players s2)"
    with app show ?thesis unfolding eq by simp
  qed
qed

lemma console_lines_append: "console_lines (t1 @ t2) = console_lines t1 @ console_lines t2"
  by (induction t1 rule: console_lines.induct) simp_all

lemma count_list_console: "count_list (console l k) PropertiesLoad = 0"
  by (simp add: console_def count_list_0_iff image_iff)

lemma count_kill_console: "count_list (console s k) (CallInThread_kill sig) = 0"
  by (simp add: console_def count_list_0_iff image_iff)

lemma console_single: "CHR 0x0A \<notin> set s \<Longrightarrow> console s k = [Dispatch (Console s k)]"
  by (simp add: console_def split_newline_no_newline)

lemma console_no_kwargs_single:
  "console ''unknown command.'' k = [Dispatch (Console ''unknown command.'' k)]"
  by (simp add: console_def)

lemma server_input_not_in_console: "Dispatch (ServerInput l b) \<notin> set (console line k)"
  by (auto simp: console_def)

lemma hook_not_in_console: "Dispatch (Hook l) \<notin> set (console line k)"
  by (auto simp: console_def)

lemma console_all_tagged: "\<forall>a \<in> set (console line k). \<exists>l. a = Dispatch (Console l k)"
  by (auto simp: console_def)

lemma join_console_shutdown: "join_newline (console_lines (console s k @ shutdown)) = s"
  by (simp add: console_lines_append console_lines_console join_split_newline shutdown_def)

lemma handle_server_started_again:
  "started self \<Longrightarrow> \<exists>s1. handle_server_started l self = (s1, [PropertiesLoad]) \<and> started s1"
  by (cases l) (simp_all add: handle_server_started_def)

lemma handle_server_started_first:
  "\<not> started self \<Longrightarrow>
     \<exists>s1. handle_server_started l self =
            (s1, PropertiesLoad # console ''mark2 started.'' no_kwargs) \<and> started s1"
  by (cases l) (simp_all add: handle_server_started_def)

lemma run_started_again:
  "\<forall>p \<in> set es. snd p = ServerStarted \<Longrightarrow> started self \<Longrightarrow>
     console_lines (snd (run self es)) = []
     \<and> count_list (snd (run self es)) PropertiesLoad = length es
     \<and> started (fst (run self es))"
proof (induction es arbitrary: self)
  case Nil
  then show ?case by simp
next
  case (Cons p es)
  obtain env where p: "p = (env, ServerStarted)"
    using Cons.prems(1) by (cases p) simp
  obtain s1 where h: "handle_server_started (properties_load env) self = (s1, [PropertiesLoad])"
    and s1: "started s1"
    using handle_server_started_again[OF Cons.prems(2)] by blast
  have ih: "console_lines (snd (run s1 es)) = []
     \<and> count_list (snd (run s1 es)) PropertiesLoad = length es
     \<and> started (fst (run s1 es))"
    using Cons.IH[OF _ s1] Cons.prems(1) by simp
  have eq: "run self (p # es) = (fst (run s1 es), PropertiesLoad # snd (run s1 es))"
    unfolding p by (simp add: h split: prod.splits)
  show ?case unfolding eq using ih by simp
qed

lemma run_started_first:
  assumes "\<forall>p \<in> set es. snd p = ServerStarted" and "\<not> started self" and "es \<noteq> []"
  shows "console_lines (snd (run self es)) = [''mark2 started.'']
     \<and> count_list (snd (run self es)) PropertiesLoad = length es
     \<and> started (fst (run self es))"
proof -
  from assms obtain env es' where es: "es = (env, ServerStarted) # es'"
    by (cases es) auto
  obtain s1 where h: "handle_server_started (properties_load env) self =
             (s1, PropertiesLoad # console ''mark2 started.'' no_kwargs)"
    and s1: "started s1"
    using handle_server_started_first[OF assms(2)] by blast
  have rest: "console_lines (snd (run s1 es')) = []
     \<and> count_list (snd (run s1 es')) PropertiesLoad = length es'
     \<and> started (fst (run s1 es'))"
    using run_started_again[of es' s1] assms(1) s1 es by simp
  have eq: "run self es =
      (fst (run s1 es'), (PropertiesLoad # console ''mark2 started.'' no_kwargs) @ snd (run s1 es'))"
    unfolding es by (simp add: h split: prod.splits)
  have cl: "console_lines (t1 @ t2) = console_lines t1 @ console_lines t2" for t1 t2
    by (induction t1 rule: console_lines.induct) simp_all
  have c1: "console_lines (console ''mark2 started.'' no_kwargs) = [''mark2 started.'']"
    by (simp add: console_lines_console)
  show ?thesis
    unfolding eq using rest c1 by (simp add: cl count_list_console es)
qed

lemma handler_skip:
  "\<forall>d \<in> set pre. re_match (fst (snd d)) (so_data e) = None \<Longrightarrow>
     handler re_match (pre @ deaths) e cause = handler re_match deaths e cause"
  by (induction pre) auto

lemma re_match_fall:
  "re_match_fragment fall_pattern ''Steve fell from a high place'' = Some [(''victim'', Some ''Steve'')]"
  by (simp add: re_match_fragment_def fall_pattern_def is_word_def)


section \<open>The claims\<close>

text \<open>
  C1 (as amended). For a \<^verbatim>\<open>ServerOutput\<close> event the death classifier goes through
  the table in order. At the first entry whose pattern matches the event's data at its
  start (\<^verbatim>\<open>re.match\<close>: the pattern need not cover the whole of the data) it
  dispatches exactly one \<^verbatim>\<open>PlayerDeath\<close> event, built from the caller's cause, the
  entry's format and the named groups of the match, and stops, whatever entries follow
  in the table, provided that no group of the match is named \<^verbatim>\<open>cause\<close> or
  \<^verbatim>\<open>format\<close>. If no entry matches, nothing is dispatched. For the table with the one
  entry \<^verbatim>\<open>fall\<close> and the data \<^verbatim>\<open>Steve fell from a high place\<close> the one call is the
  dispatch of \<^verbatim>\<open>PlayerDeath\<close> with \<^verbatim>\<open>victim="Steve"\<close> and the format
  \<^verbatim>\<open>{victim} fell.\<close>
\<close>

theorem death_classifier_first_match:
  "((\<forall>d \<in> set pre. re_match (fst (snd d)) (so_data e) = None)
      \<and> re_match pattern (so_data e) = Some groupdict
      \<and> ''cause'' \<notin> set (map fst groupdict) \<and> ''format'' \<notin> set (map fst groupdict)
     \<longrightarrow> handler re_match (pre @ (name, pattern, format) # post) e cause =
           Inr [Dispatch (PlayerDeath cause format groupdict)])
   \<and> ((\<forall>d \<in> set deaths. re_match (fst (snd d)) (so_data e) = None)
     \<longrightarrow> handler re_match deaths e cause = Inr [])
   \<and> (so_data e = ''Steve fell from a high place''
     \<longrightarrow> handler re_match_fragment [(''fall'', fall_pattern, ''{victim} fell.'')] e cause =
           Inr [Dispatch (PlayerDeath cause ''{victim} fell.'' [(''victim'', Some ''Steve'')])])"
proof -
  have first: "handler re_match (pre @ (name, pattern, format) # post) e cause =
      Inr [Dispatch (PlayerDeath cause format groupdict)]"
    if "\<forall>d \<in> set pre. re_match (fst (snd d)) (so_data e) = None"
      and "re_match pattern (so_data e) = Some groupdict"
      and "''cause'' \<notin> set (map fst groupdict)" and "''format'' \<notin> set (map fst groupdict)"
    using that by (simp add: handler_skip)
  have none: "handler re_match deaths e cause = Inr []"
    if "\<forall>d \<in> set deaths. re_match (fst (snd d)) (so_data e) = None"
    using handler_skip[of deaths re_match e "[]" cause] that by simp
  have ex: "handler re_match_fragment [(''fall'', fall_pattern, ''{victim} fell.'')] e cause =
      Inr [Dispatch (PlayerDeath cause ''{victim} fell.'' [(''victim'', Some ''Steve'')])]"
    if "so_data e = ''Steve fell from a high place''"
    using that by (simp add: re_match_fall)
  from first none ex show ?thesis by blast
qed

theorem death_classifier_first_match_witness:
  "handler re_match_fragment
     [(''lava'', Cat Bol (lit ''Steve tried to swim in lava'' Eol), ''{victim} burned.''),
      (''fall'', fall_pattern, ''{victim} fell.''),
      (''any'', Named ''victim'' (Plus Word), ''{victim} died.'')]
     \<lparr>so_line = ''Steve fell from a high place'', so_time = ''12:00:00'', so_level = ''INFO'',
      so_data = ''Steve fell from a high place''\<rparr> None =
   Inr [Dispatch (PlayerDeath None ''{victim} fell.'' [(''victim'', Some ''Steve'')])]
   \<and> handler re_match_fragment
     [(''lava'', Cat Bol (lit ''Steve tried to swim in lava'' Eol), ''{victim} burned.''),
      (''fall'', fall_pattern, ''{victim} fell.'')]
     \<lparr>so_line = ''Steve joined the game'', so_time = ''12:00:00'', so_level = ''INFO'',
      so_data = ''Steve joined the game''\<rparr> None =
   Inr []
   \<and> handler re_match_fragment [(''fall'', fall_pattern, ''{victim} fell.'')]
     \<lparr>so_line = ''Steve fell from a high place'', so_time = ''12:00:00'', so_level = ''INFO'',
      so_data = ''Steve fell from a high place''\<rparr> None =
   Inr [Dispatch (PlayerDeath None ''{victim} fell.'' [(''victim'', Some ''Steve'')])]"
proof -
  let ?e = "\<lparr>so_line = ''Steve fell from a high place'', so_time = ''12:00:00'', so_level = ''INFO'',
      so_data = ''Steve fell from a high place''\<rparr>"
  let ?e2 = "\<lparr>so_line = ''Steve joined the game'', so_time = ''12:00:00'', so_level = ''INFO'',
      so_data = ''Steve joined the game''\<rparr>"
  let ?lava = "(''lava'', Cat Bol (lit ''Steve tried to swim in lava'' Eol), ''{victim} burned.'')"
  have 1: "\<forall>d \<in> set [?lava]. re_match_fragment (fst (snd d)) (so_data ?e) = None"
    by (simp add: re_match_fragment_def)
  have 2: "re_match_fragment fall_pattern (so_data ?e) = Some [(''victim'', Some ''Steve'')]"
    by (simp add: re_match_fall)
  have 3: "''cause'' \<notin> set (map fst [(''victim'', Some ''Steve'')])
         \<and> ''format'' \<notin> set (map fst [(''victim'', Some ''Steve'')])"
    by simp
  have 6: "\<forall>d \<in> set [?lava, (''fall'', fall_pattern, ''{victim} fell.'')].
             re_match_fragment (fst (snd d)) (so_data ?e2) = None"
    by (simp add: re_match_fragment_def fall_pattern_def is_word_def)
  have 7: "so_data ?e = ''Steve fell from a high place''"
    by simp
  have 123: "(\<forall>d \<in> set [?lava]. re_match_fragment (fst (snd d)) (so_data ?e) = None)
      \<and> re_match_fragment fall_pattern (so_data ?e) = Some [(''victim'', Some ''Steve'')]
      \<and> ''cause'' \<notin> set (map fst [(''victim'', Some ''Steve'')])
      \<and> ''format'' \<notin> set (map fst [(''victim'', Some ''Steve'')])"
    using 1 2 3 by blast
  have a: "handler re_match_fragment
     ([?lava] @ (''fall'', fall_pattern, ''{victim} fell.'') #
      [(''any'', Named ''victim'' (Plus Word), ''{victim} died.'')]) ?e None =
   Inr [Dispatch (PlayerDeath None ''{victim} fell.'' [(''victim'', Some ''Steve'')])]"
    by (rule death_classifier_first_match
          [where re_match = re_match_fragment and pre = "[?lava]" and e = ?e
             and pattern = fall_pattern and groupdict = "[(''victim'', Some ''Steve'')]",
           THEN conjunct1, THEN mp, OF 123])
  have c: "handler re_match_fragment [?lava, (''fall'', fall_pattern, ''{victim} fell.'')] ?e2 None = Inr []"
    by (rule death_classifier_first_match
          [where re_match = re_match_fragment and e = ?e2
             and deaths = "[?lava, (''fall'', fall_pattern, ''{victim} fell.'')]",
           THEN conjunct2, THEN conjunct1, THEN mp, OF 6])
  have d: "handler re_match_fragment [(''fall'', fall_pattern, ''{victim} fell.'')] ?e None =
     Inr [Dispatch (PlayerDeath None ''{victim} fell.'' [(''victim'', Some ''Steve'')])]"
    by (rule death_classifier_first_match
          [where e = ?e, THEN conjunct2, THEN conjunct2, THEN mp, OF 7])
  from a c d show ?thesis by simp
qed

text \<open>
  The claim as it is written fails in two ways. With the table of the entries
  \<^verbatim>\<open>any\<close>, the pattern \<^verbatim>\<open>(?P<victim>\w+)\<close>, and \<^verbatim>\<open>fall\<close>, the first entry whose
  pattern matches the full line \<^verbatim>\<open>Steve fell from a high place\<close> is \<^verbatim>\<open>fall\<close>, and
  the classifier dispatches the event of \<^verbatim>\<open>any\<close>, whose pattern matches the start of
  the line only. And the pattern \<^verbatim>\<open>slain\<close>, with a group named \<^verbatim>\<open>cause\<close>, matches
  the full line \<^verbatim>\<open>Steve was slain by Zombie\<close>, and the classifier dispatches nothing.
\<close>

theorem death_classifier_counterexample:
  "re_fullmatch_fragment fall_pattern ''Steve fell from a high place''
   \<and> \<not> re_fullmatch_fragment (Named ''victim'' (Plus Word)) ''Steve fell from a high place''
   \<and> handler re_match_fragment
       [(''any'', Named ''victim'' (Plus Word), ''{victim} died.''),
        (''fall'', fall_pattern, ''{victim} fell.'')]
       \<lparr>so_line = ''Steve fell from a high place'', so_time = ''12:00:00'', so_level = ''INFO'',
        so_data = ''Steve fell from a high place''\<rparr> None =
     Inr [Dispatch (PlayerDeath None ''{victim} died.'' [(''victim'', Some ''Steve'')])]
   \<and> re_fullmatch_fragment slain_pattern ''Steve was slain by Zombie''
   \<and> handler re_match_fragment [(''slain'', slain_pattern, ''{victim} was slain.'')]
       \<lparr>so_line = ''Steve was slain by Zombie'', so_time = ''12:00:00'', so_level = ''INFO'',
        so_data = ''Steve was slain by Zombie''\<rparr> None = Inl TypeError"
proof -
  have 1: "re_fullmatch_fragment fall_pattern ''Steve fell from a high place''"
    by (simp add: re_fullmatch_fragment_def fall_pattern_def is_word_def)
  have 2: "\<not> re_fullmatch_fragment (Named ''victim'' (Plus Word)) ''Steve fell from a high place''"
    by (simp add: re_fullmatch_fragment_def is_word_def)
  have 3: "re_match_fragment (Named ''victim'' (Plus Word)) ''Steve fell from a high place'' =
      Some [(''victim'', Some ''Steve'')]"
    by (simp add: re_match_fragment_def is_word_def)
  have 4: "re_fullmatch_fragment slain_pattern ''Steve was slain by Zombie''"
    by (simp add: re_fullmatch_fragment_def slain_pattern_def is_word_def)
  have 5: "re_match_fragment slain_pattern ''Steve was slain by Zombie'' =
     Some [(''victim'', Some ''Steve''), (''cause'', Some ''Zombie'')]"
    by (simp add: re_match_fragment_def slain_pattern_def is_word_def)
  from 1 2 3 4 5 show ?thesis by simp
qed

text \<open>
  C2. For a \<^verbatim>\<open>UserInput\<close> event whose line starts with \<^verbatim>\<open>~\<close> the handler dispatches
  a \<^verbatim>\<open>Hook\<close> event with that line, whatever the result. When the result of that
  dispatch counts as false, the calls are the echo of the line, the \<^verbatim>\<open>Hook\<close> dispatch
  and one \<^verbatim>\<open>Console\<close> event with the line \<^verbatim>\<open>unknown command.\<close>; when it counts as
  true, the message is not sent. No \<^verbatim>\<open>ServerInput\<close> event is dispatched in any case.
\<close>

theorem user_input_command:
  "startswith (ui_line event) ''~'' \<Longrightarrow>
     handle_user_input (Some False) event =
       console (ui_line event) (no_kwargs\<lparr>c_user := Some (ui_user event), c_source := Some ''user''\<rparr>)
       @ [Dispatch (Hook (ui_line event)), Dispatch (Console ''unknown command.'' no_kwargs)]
     \<and> handle_user_input (Some True) event =
       console (ui_line event) (no_kwargs\<lparr>c_user := Some (ui_user event), c_source := Some ''user''\<rparr>)
       @ [Dispatch (Hook (ui_line event))]
     \<and> (\<forall>handled. Dispatch (Hook (ui_line event)) \<in> set (handle_user_input handled event))
     \<and> (\<forall>handled l b. Dispatch (ServerInput l b) \<notin> set (handle_user_input handled event))
     \<and> registered_handlers env self (UserInput event) =
         (self, handle_user_input (hook_handled env) event)"
proof -
  assume a: "startswith (ui_line event) ''~''"
  let ?echo = "console (ui_line event) (no_kwargs\<lparr>c_user := Some (ui_user event), c_source := Some ''user''\<rparr>)"
  have def: "handle_user_input handled event =
      ?echo @ Dispatch (Hook (ui_line event)) #
        (case handled of None \<Rightarrow> [] | Some h \<Rightarrow> if \<not> h then console ''unknown command.'' no_kwargs else [])"
    for handled
    using a by (simp add: handle_user_input_def)
  have 1: "handle_user_input (Some False) event =
       ?echo @ [Dispatch (Hook (ui_line event)), Dispatch (Console ''unknown command.'' no_kwargs)]"
    by (simp add: def console_no_kwargs_single)
  have 2: "handle_user_input (Some True) event = ?echo @ [Dispatch (Hook (ui_line event))]"
    by (simp add: def)
  have 3: "Dispatch (Hook (ui_line event)) \<in> set (handle_user_input handled event)" for handled
    by (simp add: def)
  have 4: "Dispatch (ServerInput l b) \<notin> set (handle_user_input handled event)" for handled l b
    by (cases handled) (simp_all add: def server_input_not_in_console console_no_kwargs_single)
  have 5: "registered_handlers env self (UserInput event) =
         (self, handle_user_input (hook_handled env) event)"
    by simp
  from 1 2 3 4 5 show ?thesis by blast
qed

theorem user_input_command_witness:
  "handle_user_input (Some False) \<lparr>ui_line = ''~foo'', ui_user = ''admin''\<rparr> =
     [Dispatch (Console ''~foo'' (no_kwargs\<lparr>c_user := Some ''admin'', c_source := Some ''user''\<rparr>)),
      Dispatch (Hook ''~foo''),
      Dispatch (Console ''unknown command.'' no_kwargs)]"
proof -
  have s: "startswith (ui_line \<lparr>ui_line = ''~foo'', ui_user = ''admin''\<rparr>) ''~''"
    by (simp add: startswith_def)
  show ?thesis
    using user_input_command[OF s] by (simp add: console_def)
qed

text \<open>
  C3. From an empty players set, the dispatches of \<^verbatim>\<open>PlayerJoin\<close> for Alice,
  \<^verbatim>\<open>PlayerJoin\<close> for Bob and \<^verbatim>\<open>PlayerQuit\<close> for Alice leave the set \<open>{Bob}\<close>, and
  the last \<^verbatim>\<open>StatPlayers\<close> event dispatched carries \<open>{Bob}\<close>. In general a
  \<^verbatim>\<open>PlayerJoin\<close> adds the name, a \<^verbatim>\<open>PlayerQuit\<close> removes it, each of them dispatches
  \<^verbatim>\<open>StatPlayers\<close> with the set as it is after the change, and over any sequence of
  dispatches the last \<^verbatim>\<open>StatPlayers\<close> event carries the players set the manager ends
  with (when no such event was dispatched, the set has not changed).
\<close>

theorem players_join_quit:
  "run (self\<lparr>players := {}\<rparr>)
       [(env1, PlayerJoin ''Alice''), (env2, PlayerJoin ''Bob''), (env3, PlayerQuit ''Alice'')] =
     (self\<lparr>players := {''Bob''}\<rparr>,
      [Dispatch (StatPlayers {''Alice''}), Dispatch (StatPlayers {''Bob'', ''Alice''}),
       Dispatch (StatPlayers {''Bob''})])
   \<and> last_stat_players
       [Dispatch (StatPlayers {''Alice''}), Dispatch (StatPlayers {''Bob'', ''Alice''}),
        Dispatch (StatPlayers {''Bob''})] = Some {''Bob''}
   \<and> registered_handlers env self (PlayerJoin username) =
       (self\<lparr>players := insert username (players self)\<rparr>,
        [Dispatch (StatPlayers (insert username (players self)))])
   \<and> registered_handlers env self (PlayerQuit username) =
       (self\<lparr>players := players self - {username}\<rparr>,
        [Dispatch (StatPlayers (players self - {username}))])
   \<and> (last_stat_players (snd (run self es)) = None \<and> players (fst (run self es)) = players self
       \<or> last_stat_players (snd (run self es)) = Some (players (fst (run self es))))"
proof -
  have "run (self\<lparr>players := {}\<rparr>)
       [(env1, PlayerJoin ''Alice''), (env2, PlayerJoin ''Bob''), (env3, PlayerQuit ''Alice'')] =
     (self\<lparr>players := {''Bob''}\<rparr>,
      [Dispatch (StatPlayers {''Alice''}), Dispatch (StatPlayers {''Bob'', ''Alice''}),
       Dispatch (StatPlayers {''Bob''})])"
    by (simp add: handle_player_join_def handle_player_quit_def Let_def insert_Diff_if)
  moreover have "last_stat_players
       [Dispatch (StatPlayers {''Alice''}), Dispatch (StatPlayers {''Bob'', ''Alice''}),
        Dispatch (StatPlayers {''Bob''})] = Some {''Bob''}"
    by simp
  moreover have "registered_handlers env self (PlayerJoin username) =
       (self\<lparr>players := insert username (players self)\<rparr>,
        [Dispatch (StatPlayers (insert username (players self)))])"
    by (simp add: handle_player_join_def)
  moreover have "registered_handlers env self (PlayerQuit username) =
       (self\<lparr>players := players self - {username}\<rparr>,
        [Dispatch (StatPlayers (players self - {username}))])"
    by (simp add: handle_player_quit_def)
  ultimately show ?thesis
    using run_mirror[of self es] by blast
qed

text \<open>
  C4. Whatever the players set holds, dispatching \<^verbatim>\<open>ServerStopped\<close> runs
  \<^verbatim>\<open>handle_server_stopped\<close>: the set is empty afterwards, and the one call made is the
  dispatch of a \<^verbatim>\<open>StatPlayers\<close> event with no players.
\<close>

theorem server_stopped_clears_players:
  "registered_handlers env self ServerStopped =
     (self\<lparr>players := {}\<rparr>, [Dispatch (StatPlayers {})])
   \<and> players (fst (registered_handlers env self ServerStopped)) = {}
   \<and> last_stat_players (snd (registered_handlers env self ServerStopped)) = Some {}"
  by (simp add: handle_server_stopped_def)

text \<open>
  C5. \<^verbatim>\<open>handle_server_started\<close> calls \<^verbatim>\<open>properties.load\<close> first, on every
  dispatch, and takes over what it returns whenever that counts as true, whether or not
  the start was announced before. The line \<^verbatim>\<open>mark2 started.\<close> goes to the console only
  when \<^verbatim>\<open>started\<close> is still false, and \<^verbatim>\<open>started\<close> is true afterwards. So over any
  number of \<^verbatim>\<open>ServerStarted\<close> dispatches the line is sent once, by the first of them,
  and the properties are loaded once for each dispatch.
\<close>

theorem server_started_announced_once:
  "snd (handle_server_started loaded self) =
     PropertiesLoad # (if started self then [] else [Dispatch (Console ''mark2 started.'' no_kwargs)])
   \<and> started (fst (handle_server_started loaded self))
   \<and> properties (fst (handle_server_started loaded self)) =
       (case loaded of Some p \<Rightarrow> Some p | None \<Rightarrow> properties self)
   \<and> players (fst (handle_server_started loaded self)) = players self
   \<and> registered_handlers env self ServerStarted = handle_server_started (properties_load env) self
   \<and> ((\<forall>p \<in> set es. snd p = ServerStarted) \<and> \<not> started self \<and> es \<noteq> [] \<longrightarrow>
        console_lines (snd (run self es)) = [''mark2 started.'']
        \<and> count_list (snd (run self es)) PropertiesLoad = length es)
   \<and> ((\<forall>p \<in> set es. snd p = ServerStarted) \<and> started self \<longrightarrow>
        console_lines (snd (run self es)) = []
        \<and> count_list (snd (run self es)) PropertiesLoad = length es)"
proof -
  have "snd (handle_server_started loaded self) =
     PropertiesLoad # (if started self then [] else [Dispatch (Console ''mark2 started.'' no_kwargs)])"
    by (simp add: handle_server_started_def console_def split: option.splits)
  moreover have "started (fst (handle_server_started loaded self))"
    by (simp add: handle_server_started_def split: option.splits)
  moreover have "properties (fst (handle_server_started loaded self)) =
       (case loaded of Some p \<Rightarrow> Some p | None \<Rightarrow> properties self)"
    by (simp add: handle_server_started_def split: option.splits)
  moreover have "players (fst (handle_server_started loaded self)) = players self"
    by (simp add: handle_server_started_def split: option.splits)
  moreover have "registered_handlers env self ServerStarted =
      handle_server_started (properties_load env) self"
    by simp
  ultimately show ?thesis
    using run_started_first[of es self] run_started_again[of es self] by blast
qed

theorem server_started_announced_once_witness:
  "console_lines (snd (run \<lparr>players = {}, started = False, properties = Some (1::nat)\<rparr>
      [(\<lparr>properties_load = Some 2, hook_handled = None, console_value = (\<lambda>l k. l)\<rparr>, ServerStarted),
       (\<lparr>properties_load = Some 3, hook_handled = None, console_value = (\<lambda>l k. l)\<rparr>, ServerStarted)]))
     = [''mark2 started.'']
   \<and> count_list (snd (run \<lparr>players = {}, started = False, properties = Some (1::nat)\<rparr>
      [(\<lparr>properties_load = Some 2, hook_handled = None, console_value = (\<lambda>l k. l)\<rparr>, ServerStarted),
       (\<lparr>properties_load = Some 3, hook_handled = None, console_value = (\<lambda>l k. l)\<rparr>, ServerStarted)]))
      PropertiesLoad = 2
   \<and> properties (fst (run \<lparr>players = {}, started = False, properties = Some (1::nat)\<rparr>
      [(\<lparr>properties_load = Some 2, hook_handled = None, console_value = (\<lambda>l k. l)\<rparr>, ServerStarted),
       (\<lparr>properties_load = Some 3, hook_handled = None, console_value = (\<lambda>l k. l)\<rparr>, ServerStarted)]))
     = Some 3
   \<and> console_lines (snd (run \<lparr>players = {}, started = True, properties = Some (1::nat)\<rparr>
      [(\<lparr>properties_load = None, hook_handled = None, console_value = (\<lambda>l k. l)\<rparr>, ServerStarted)]))
     = []
   \<and> count_list (snd (run \<lparr>players = {}, started = True, properties = Some (1::nat)\<rparr>
      [(\<lparr>properties_load = None, hook_handled = None, console_value = (\<lambda>l k. l)\<rparr>, ServerStarted)]))
      PropertiesLoad = 1
   \<and> properties (fst (run \<lparr>players = {}, started = True, properties = Some (1::nat)\<rparr>
      [(\<lparr>properties_load = None, hook_handled = None, console_value = (\<lambda>l k. l)\<rparr>, ServerStarted)]))
     = Some 1"
proof -
  let ?fresh = "\<lparr>players = {}, started = False, properties = Some (1::nat)\<rparr>"
  let ?running = "\<lparr>players = {}, started = True, properties = Some (1::nat)\<rparr>"
  let ?es = "[(\<lparr>properties_load = Some (2::nat), hook_handled = None, console_value = (\<lambda>l k. l)\<rparr>, ServerStarted),
       (\<lparr>properties_load = Some 3, hook_handled = None, console_value = (\<lambda>l k. l)\<rparr>, ServerStarted)]"
  let ?es1 = "[(\<lparr>properties_load = (None :: nat option), hook_handled = None, console_value = (\<lambda>l k. l)\<rparr>, ServerStarted)]"
  have first: "(\<forall>p \<in> set ?es. snd p = ServerStarted) \<and> \<not> started ?fresh \<and> ?es \<noteq> []"
    by simp
  have again: "(\<forall>p \<in> set ?es1. snd p = ServerStarted) \<and> started ?running"
    by simp
  have a: "console_lines (snd (run ?fresh ?es)) = [''mark2 started.'']
        \<and> count_list (snd (run ?fresh ?es)) PropertiesLoad = length ?es"
    by (rule server_started_announced_once
          [where self = ?fresh and es = ?es,
           THEN conjunct2, THEN conjunct2, THEN conjunct2, THEN conjunct2, THEN conjunct2,
           THEN conjunct1, THEN mp, OF first])
  have b: "console_lines (snd (run ?running ?es1)) = []
        \<and> count_list (snd (run ?running ?es1)) PropertiesLoad = length ?es1"
    by (rule server_started_announced_once
          [where self = ?running and es = ?es1,
           THEN conjunct2, THEN conjunct2, THEN conjunct2, THEN conjunct2, THEN conjunct2,
           THEN conjunct2, THEN mp, OF again])
  have c: "properties (fst (run ?fresh ?es)) = Some 3"
    by (simp add: handle_server_started_def)
  have d: "properties (fst (run ?running ?es1)) = Some 1"
    by (simp add: handle_server_started_def)
  from a b c d show ?thesis by simp
qed

text \<open>
  C6. A \<^verbatim>\<open>UserInput\<close> line that starts with \<^verbatim>\<open>#\<close> (it then does not start with
  \<^verbatim>\<open>~\<close>) is dropped after the echo: every call made is the dispatch of a
  \<^verbatim>\<open>Console\<close> event of the echo, tagged with the user and \<^verbatim>\<open>source="user"\<close>, so there
  is no \<^verbatim>\<open>Hook\<close>, no \<^verbatim>\<open>ServerInput\<close> and no \<^verbatim>\<open>unknown command.\<close> message of the
  manager. A line that starts with neither prefix is echoed and then dispatched as
  \<^verbatim>\<open>ServerInput\<close> with \<^verbatim>\<open>parse_colors=True\<close>.
\<close>

theorem user_input_comment_or_passthrough:
  "(startswith (ui_line event) ''#'' \<longrightarrow>
      \<not> startswith (ui_line event) ''~''
      \<and> handle_user_input handled event =
          console (ui_line event) (no_kwargs\<lparr>c_user := Some (ui_user event), c_source := Some ''user''\<rparr>)
      \<and> (\<forall>a \<in> set (handle_user_input handled event).
            \<exists>l. a = Dispatch (Console l (no_kwargs\<lparr>c_user := Some (ui_user event), c_source := Some ''user''\<rparr>)))
      \<and> (\<forall>l. Dispatch (Hook l) \<notin> set (handle_user_input handled event))
      \<and> (\<forall>l b. Dispatch (ServerInput l b) \<notin> set (handle_user_input handled event))
      \<and> Dispatch (Console ''unknown command.'' no_kwargs) \<notin> set (handle_user_input handled event))
   \<and> (\<not> startswith (ui_line event) ''~'' \<and> \<not> startswith (ui_line event) ''#'' \<longrightarrow>
      handle_user_input handled event =
        console (ui_line event) (no_kwargs\<lparr>c_user := Some (ui_user event), c_source := Some ''user''\<rparr>)
        @ [Dispatch (ServerInput (ui_line event) True)])"
proof -
  define k where "k = no_kwargs\<lparr>c_user := Some (ui_user event), c_source := Some ''user''\<rparr>"
  have kne: "k \<noteq> no_kwargs"
    by (simp add: k_def no_kwargs_def)
  have excl: "startswith (ui_line event) ''#'' \<Longrightarrow> \<not> startswith (ui_line event) ''~''"
    by (cases "ui_line event") (simp_all add: startswith_def)
  have c: "startswith (ui_line event) ''#'' \<Longrightarrow> handle_user_input handled event = console (ui_line event) k"
    using excl by (simp add: handle_user_input_def k_def)
  have unk: "Dispatch (Console ''unknown command.'' no_kwargs) \<notin> set (console (ui_line event) k)"
    using kne by (auto simp: console_def)
  have p: "\<not> startswith (ui_line event) ''~'' \<and> \<not> startswith (ui_line event) ''#'' \<Longrightarrow>
      handle_user_input handled event = console (ui_line event) k @ [Dispatch (ServerInput (ui_line event) True)]"
    by (simp add: handle_user_input_def k_def)
  from excl c p unk console_all_tagged[of "ui_line event" k]
    hook_not_in_console[of _ "ui_line event" k] server_input_not_in_console[of _ _ "ui_line event" k]
  show ?thesis
    unfolding k_def by metis
qed

theorem user_input_comment_or_passthrough_witness:
  "handle_user_input None \<lparr>ui_line = ''#restart at noon'', ui_user = ''admin''\<rparr> =
     [Dispatch (Console ''#restart at noon'' (no_kwargs\<lparr>c_user := Some ''admin'', c_source := Some ''user''\<rparr>))]
   \<and> handle_user_input None \<lparr>ui_line = ''say hi'', ui_user = ''admin''\<rparr> =
     [Dispatch (Console ''say hi'' (no_kwargs\<lparr>c_user := Some ''admin'', c_source := Some ''user''\<rparr>)),
      Dispatch (ServerInput ''say hi'' True)]"
proof -
  have 1: "startswith (ui_line \<lparr>ui_line = ''#restart at noon'', ui_user = ''admin''\<rparr>) ''#''"
    by (simp add: startswith_def)
  have 2: "\<not> startswith (ui_line \<lparr>ui_line = ''say hi'', ui_user = ''admin''\<rparr>) ''~''
         \<and> \<not> startswith (ui_line \<lparr>ui_line = ''say hi'', ui_user = ''admin''\<rparr>) ''#''"
    by (simp add: startswith_def)
  from 1 user_input_comment_or_passthrough[of "\<lparr>ui_line = ''#restart at noon'', ui_user = ''admin''\<rparr>" None]
  have a: "handle_user_input None \<lparr>ui_line = ''#restart at noon'', ui_user = ''admin''\<rparr> =
      console ''#restart at noon'' (no_kwargs\<lparr>c_user := Some ''admin'', c_source := Some ''user''\<rparr>)"
    by simp
  from 2 user_input_comment_or_passthrough[of "\<lparr>ui_line = ''say hi'', ui_user = ''admin''\<rparr>" None]
  have b: "handle_user_input None \<lparr>ui_line = ''say hi'', ui_user = ''admin''\<rparr> =
      console ''say hi'' (no_kwargs\<lparr>c_user := Some ''admin'', c_source := Some ''user''\<rparr>)
      @ [Dispatch (ServerInput ''say hi'' True)]"
    by simp
  show ?thesis
    unfolding a b by (simp add: console_def)
qed

text \<open>
  C7 (as amended). For a \<^verbatim>\<open>FatalError\<close> event the handler registered at priority
  \<^verbatim>\<open>_HIGH\<close>, \<^verbatim>\<open>handle_fatal\<close>, first sends \<^verbatim>\<open>fatal error: <reason>\<close> to the console
  (one \<^verbatim>\<open>Console\<close> event of kind \<^verbatim>\<open>error\<close> for each line of the text, which joined
  give the text back) and then initiates the shutdown of the process: as its last call
  and exactly once it calls \<^verbatim>\<open>shutdown\<close>, which queues \<^verbatim>\<open>SIGINT\<close> for the process
  itself on a thread of the reactor. The handler has no other branch: there is no run
  that reports the error and does not initiate the shutdown.
\<close>

theorem fatal_error_console_then_shutdown:
  "registered_handlers env self (FatalError reason) = (self, handle_fatal reason)
   \<and> handle_fatal reason =
       map (\<lambda>l. Dispatch (Console l (no_kwargs\<lparr>c_kind := Some ''error''\<rparr>)))
           (split_newline (''fatal error: '' @ str reason))
       @ [CallInThread_kill SIGINT]
   \<and> split_newline (''fatal error: '' @ str reason) \<noteq> []
   \<and> join_newline (console_lines (handle_fatal reason)) = ''fatal error: '' @ str reason
   \<and> last (handle_fatal reason) = CallInThread_kill SIGINT
   \<and> count_list (handle_fatal reason) (CallInThread_kill SIGINT) = 1
   \<and> (CHR 0x0A \<notin> set (str reason) \<longrightarrow>
        handle_fatal reason =
          [Dispatch (Console (''fatal error: '' @ str reason) (no_kwargs\<lparr>c_kind := Some ''error''\<rparr>)),
           CallInThread_kill SIGINT])"
proof -
  define k where "k = no_kwargs\<lparr>c_kind := Some ''error''\<rparr>"
  define s where "s = ''fatal error: '' @ str reason"
  have hf: "handle_fatal reason = console s k @ shutdown"
    by (simp only: handle_fatal_def Let_def s_def k_def)
  have r: "registered_handlers env self (FatalError reason) = (self, handle_fatal reason)"
    by simp
  have m: "handle_fatal reason =
      map (\<lambda>l. Dispatch (Console l k)) (split_newline s) @ [CallInThread_kill SIGINT]"
    unfolding hf by (simp only: console_def shutdown_def)
  have j: "join_newline (console_lines (handle_fatal reason)) = s"
    unfolding hf by (rule join_console_shutdown)
  have l: "last (handle_fatal reason) = CallInThread_kill SIGINT"
    unfolding hf by (simp add: shutdown_def)
  have c: "count_list (handle_fatal reason) (CallInThread_kill SIGINT) = 1"
    unfolding hf by (simp add: count_kill_console shutdown_def)
  have one: "CHR 0x0A \<notin> set (str reason) \<longrightarrow>
        handle_fatal reason = [Dispatch (Console s k), CallInThread_kill SIGINT]"
  proof
    assume "CHR 0x0A \<notin> set (str reason)"
    then have "CHR 0x0A \<notin> set s" by (simp add: s_def)
    then show "handle_fatal reason = [Dispatch (Console s k), CallInThread_kill SIGINT]"
      unfolding hf by (simp add: console_single shutdown_def)
  qed
  from r m j l c one split_newline_not_Nil[of s] show ?thesis
    unfolding s_def k_def by blast
qed

theorem fatal_error_console_then_shutdown_witness:
  "handle_fatal (Some ''no jar'') =
     [Dispatch (Console ''fatal error: no jar'' (no_kwargs\<lparr>c_kind := Some ''error''\<rparr>)),
      CallInThread_kill SIGINT]
   \<and> handle_fatal None =
     [Dispatch (Console ''fatal error: None'' (no_kwargs\<lparr>c_kind := Some ''error''\<rparr>)),
      CallInThread_kill SIGINT]"
  using fatal_error_console_then_shutdown[of _ _ "Some ''no jar''"]
        fatal_error_console_then_shutdown[of _ _ None]
  by simp

text \<open>
  The claim as it is written says more: that no state exists in which the error is
  reported and the process keeps running. \<^verbatim>\<open>shutdown\<close> only queues the signal and
  returns. When \<^verbatim>\<open>mark2.properties\<close> is not found, \<^verbatim>\<open>load_config\<close> dispatches
  \<^verbatim>\<open>FatalError\<close> (with the reason \<^verbatim>\<open>None\<close>), the handler reports it and queues the
  signal, and the manager runs on: \<^verbatim>\<open>start_logging\<close> raises on the missing
  configuration, and \<^verbatim>\<open>startup\<close> sends the traceback to the console and calls
  \<^verbatim>\<open>shutdown\<close> once more.
\<close>

theorem fatal_error_reported_and_running:
  "Dispatch (FatalError None) \<in> set (snd (startup no_config_answers nothing_more new_manager))
   \<and> handle_fatal None =
       [Dispatch (Console ''fatal error: None'' (no_kwargs\<lparr>c_kind := Some ''error''\<rparr>)),
        CallInThread_kill SIGINT]
   \<and> calls_after (Dispatch (FatalError None))
         (snd (startup no_config_answers nothing_more new_manager)) =
       [Dispatch (Console ''Traceback (most recent call last):''
                    (no_kwargs\<lparr>c_kind := Some ''error''\<rparr>)),
        Dispatch (Console ''TypeError'' (no_kwargs\<lparr>c_kind := Some ''error''\<rparr>)),
        CallInThread_kill SIGINT]"
proof -
  have s: "snd (startup no_config_answers nothing_more new_manager) =
      AddSystemEventTrigger # EventDispatcher #
      map (\<lambda>(callback, kind, priority, pattern). Register callback kind priority pattern)
          registrations @
      [Chdir ''/srv/survival'', ConfigLoad, Dispatch (FatalError None),
       Dispatch (Console ''Traceback (most recent call last):''
                   (no_kwargs\<lparr>c_kind := Some ''error''\<rparr>)),
       Dispatch (Console ''TypeError'' (no_kwargs\<lparr>c_kind := Some ''error''\<rparr>)),
       CallInThread_kill SIGINT]"
    by (simp add: startup_def really_start_def load_config_def start_logging_def
          fatal_error_def no_config_answers_def nothing_more_def new_manager_def
          console_def shutdown_def)
  have m: "Dispatch (FatalError None) \<in> set (snd (startup no_config_answers nothing_more new_manager))"
    unfolding s by simp
  have h: "handle_fatal None =
       [Dispatch (Console ''fatal error: None'' (no_kwargs\<lparr>c_kind := Some ''error''\<rparr>)),
        CallInThread_kill SIGINT]"
    by (simp add: handle_fatal_def console_def shutdown_def)
  have c: "calls_after (Dispatch (FatalError None))
         (snd (startup no_config_answers nothing_more new_manager)) =
       [Dispatch (Console ''Traceback (most recent call last):''
                    (no_kwargs\<lparr>c_kind := Some ''error''\<rparr>)),
        Dispatch (Console ''TypeError'' (no_kwargs\<lparr>c_kind := Some ''error''\<rparr>)),
        CallInThread_kill SIGINT]"
    unfolding s by (simp add: calls_after_def registrations_def)
  from m h c show ?thesis by simp
qed

text \<open>
  C8. For every \<^verbatim>\<open>ServerOutput\<close> event the handler registered at priority
  \<^verbatim>\<open>MONITOR\<close>, \<^verbatim>\<open>handle_server_output\<close>, makes exactly one call: the dispatch of one
  \<^verbatim>\<open>Console\<close> event with \<^verbatim>\<open>source="server"\<close>, the line of the event as it is (it is
  not split at newlines) and the event's time, level and data. The manager's attributes
  stay as they are.
\<close>

theorem server_output_to_console:
  "registered_handlers env self (ServerOutput event) =
     (self, [Dispatch (Console (so_line event)
        \<lparr>c_source = Some ''server'', c_kind = None, c_user = None,
         c_time = Some (so_time event), c_level = Some (so_level event),
         c_data = Some (so_data event)\<rparr>)])"
  by (simp add: handle_server_output_def)

text \<open>
  C9. A \<^verbatim>\<open>PlayerQuit\<close> for a name that is not in the players set: \<^verbatim>\<open>discard\<close> raises
  nothing (the handler has no failing branch), the manager is left as it was, and the one
  call made is the dispatch of \<^verbatim>\<open>StatPlayers\<close> with the unchanged set.
\<close>

theorem quit_of_absent_player:
  "username \<notin> players self \<Longrightarrow>
     registered_handlers env self (PlayerQuit username) =
       (self, [Dispatch (StatPlayers (players self))])"
  by (simp add: handle_player_quit_def)

theorem quit_of_absent_player_witness:
  "registered_handlers
     \<lparr>properties_load = None, hook_handled = None, console_value = (\<lambda>l k. l)\<rparr>
     \<lparr>players = {''Bob''}, started = True, properties = (None :: unit option)\<rparr>
     (PlayerQuit ''Alice'') =
   (\<lparr>players = {''Bob''}, started = True, properties = None\<rparr>,
    [Dispatch (StatPlayers {''Bob''})])"
  using quit_of_absent_player
    [of "''Alice''" "\<lparr>players = {''Bob''}, started = True, properties = (None :: unit option)\<rparr>"
        "\<lparr>properties_load = None, hook_handled = None, console_value = (\<lambda>l k. l)\<rparr>"]
  by simp

text \<open>
  C10. Whatever the line of a \<^verbatim>\<open>UserInput\<close> event is, the calls of the handler start
  with the echo of the line: \<^verbatim>\<open>console\<close> dispatches one \<^verbatim>\<open>Console\<close> event for each
  piece of the line between newlines (at least one; the whole line when it has no
  newline), each tagged with the user of the event and \<^verbatim>\<open>source="user"\<close>. The branch
  on the prefix comes after it, so a line that starts with \<^verbatim>\<open>#\<close> is echoed too.
\<close>

theorem user_input_echo_first:
  "(\<exists>rest. handle_user_input handled event =
       console (ui_line event) (no_kwargs\<lparr>c_user := Some (ui_user event), c_source := Some ''user''\<rparr>)
       @ rest)
   \<and> console (ui_line event) (no_kwargs\<lparr>c_user := Some (ui_user event), c_source := Some ''user''\<rparr>) =
       map (\<lambda>l. Dispatch (Console l (no_kwargs\<lparr>c_user := Some (ui_user event), c_source := Some ''user''\<rparr>)))
           (split_newline (ui_line event))
   \<and> split_newline (ui_line event) \<noteq> []
   \<and> join_newline (split_newline (ui_line event)) = ui_line event
   \<and> hd (handle_user_input handled event) =
       Dispatch (Console (hd (split_newline (ui_line event)))
                   (no_kwargs\<lparr>c_user := Some (ui_user event), c_source := Some ''user''\<rparr>))
   \<and> (CHR 0x0A \<notin> set (ui_line event) \<longrightarrow>
        hd (handle_user_input handled event) =
          Dispatch (Console (ui_line event)
                      (no_kwargs\<lparr>c_user := Some (ui_user event), c_source := Some ''user''\<rparr>)))"
proof -
  define k where "k = no_kwargs\<lparr>c_user := Some (ui_user event), c_source := Some ''user''\<rparr>"
  have ex: "\<exists>rest. handle_user_input handled event = console (ui_line event) k @ rest"
    by (simp add: handle_user_input_def k_def)
  have m: "console (ui_line event) k = map (\<lambda>l. Dispatch (Console l k)) (split_newline (ui_line event))"
    by (simp only: console_def)
  have ne: "split_newline (ui_line event) \<noteq> []"
    by (rule split_newline_not_Nil)
  from ex obtain rest where r: "handle_user_input handled event = console (ui_line event) k @ rest"
    by blast
  have h: "hd (handle_user_input handled event) = Dispatch (Console (hd (split_newline (ui_line event))) k)"
    unfolding r m using ne by (simp add: hd_map)
  have one: "CHR 0x0A \<notin> set (ui_line event) \<longrightarrow>
      hd (handle_user_input handled event) = Dispatch (Console (ui_line event) k)"
    using h by (simp add: split_newline_no_newline)
  from ex m ne h one join_split_newline[of "ui_line event"] show ?thesis
    unfolding k_def by blast
qed

theorem user_input_echo_first_witness:
  "hd (handle_user_input None \<lparr>ui_line = ''#restart at noon'', ui_user = ''admin''\<rparr>) =
     Dispatch (Console ''#restart at noon'' (no_kwargs\<lparr>c_user := Some ''admin'', c_source := Some ''user''\<rparr>))"
  using user_input_echo_first[of None "\<lparr>ui_line = ''#restart at noon'', ui_user = ''admin''\<rparr>"]
  by simp

end
